theory Spec2Isabelle
  imports Complex_Main "HOL-Library.Stream"
begin

section \<open>Records of the Airbolt API (airbolt\_api/classes.py)\<close>

text \<open>
  The pydantic models are records. A \<open>datetime\<close> is the integer of its instant:
  the code only compares timestamps for equality. A \<open>Literal[...]\<close> of the schema
  that the code stores in a \<open>str\<close> attribute is a string.

  A \<open>float\<close> is a finite value, taken as the real number it denotes, or one of the two
  infinities, or NaN: the schema's \<open>float\<close> accepts all of them (the JSON number
  \<open>1e999\<close> decodes to infinity). Negative zero is the real zero; it is falsy and
  converts to the integer zero like it.
\<close>

datatype pyfloat = Finite real | PosInf | NegInf | NaN

datatype entry_type = gps | mcell | scell

datatype alert_kind = Motion | SOS | Schedule | Location

record history_entry =
  he_id :: string
  he_device_uuid :: string
  he_modem_voltage :: "int option"
  he_modem_temperature :: "int option"
  he_type :: entry_type
  he_time_created :: int
  he_latitude :: pyfloat
  he_longitude :: pyfloat
  he_accuracy :: pyfloat
  he_location_changed :: bool
  he_duration :: int
  he_alert_type :: alert_kind
  he_address :: string
  he_last_seen_on :: int

text \<open>
  Of the device descriptor only the fields that some function of the repository reads
  are kept (\<open>device_uuid\<close>, \<open>name\<close>, \<open>device_type\<close>), with the record's own \<open>id\<close>.
\<close>

record found_device =
  fd_id :: string
  fd_device_uuid :: string
  fd_name :: string
  fd_device_type :: string

section \<open>Errors\<close>

text \<open>
  Every exception that the modelled code can raise is a value. \<open>ClientResponseError\<close>
  is what \<open>response.raise_for_status()\<close> raises, with the status of the response;
  \<open>ClientConnectionError\<close> is a request that got no response. \<open>raise X from exc\<close>
  keeps \<open>exc\<close> as the cause of \<open>X\<close>, so \<open>InvalidCredentials\<close> and \<open>UpdateFailed\<close>
  carry the exception they were raised from.
\<close>

datatype error =
    MissingDataError
  | InvalidCredentials error
  | UpdateFailed error
  | ClientResponseError nat
  | ClientConnectionError
  | ValidationError
  | AttributeError string
  | KeyError string
  | IndexError
  | UnboundLocalError string
  | OverflowError
  | ValueError

section \<open>Tracker (hub.py)\<close>

record tracker =
  tr_id :: string
  tr_name :: string
  tr_model :: string
  last_report :: "history_entry option"

text \<open>
  \<open>update_device\<close>: when name and model both equal the descriptor's, return False
  and write nothing; otherwise store both and return True.
\<close>

definition update_device :: "found_device \<Rightarrow> tracker \<Rightarrow> bool \<times> tracker" where
  "update_device discovered_info self =
     (if tr_name self = fd_name discovered_info
         \<and> tr_model self = fd_device_type discovered_info
      then (False, self)
      else (True, self\<lparr>tr_name := fd_name discovered_info,
                        tr_model := fd_device_type discovered_info\<rparr>))"

text \<open>
  \<open>Tracker.__init__\<close>: the id is the descriptor's \<open>device_uuid\<close>, name and model start
  empty, there is no report, and \<open>update_device\<close> is applied at once (its result is dropped).
\<close>

definition Tracker :: "found_device \<Rightarrow> tracker" where
  "Tracker discovered_info =
     snd (update_device discovered_info
            \<lparr>tr_id = fd_device_uuid discovered_info, tr_name = [],
             tr_model = [], last_report = None\<rparr>)"

text \<open>
  The location-derived properties. A stored entry is a pydantic model, which is always
  truthy, so \<open>not self._last_report\<close> holds exactly when nothing is stored.
\<close>

definition latitude :: "tracker \<Rightarrow> error + pyfloat" where
  "latitude self =
     (case last_report self of None \<Rightarrow> Inl MissingDataError | Some r \<Rightarrow> Inr (he_latitude r))"

definition longitude :: "tracker \<Rightarrow> error + pyfloat" where
  "longitude self =
     (case last_report self of None \<Rightarrow> Inl MissingDataError | Some r \<Rightarrow> Inr (he_longitude r))"

text \<open>
  \<open>x or 10000\<close> is \<open>x\<close> unless \<open>x\<close> is falsy, and a float is falsy exactly when
  it is zero (NaN and the infinities are truthy). \<open>int(x)\<close> of a finite float truncates
  towards zero; of an infinity it raises \<open>OverflowError\<close>, of NaN \<open>ValueError\<close>.
\<close>

definition float_truthy :: "pyfloat \<Rightarrow> bool" where
  "float_truthy x = (case x of Finite v \<Rightarrow> v \<noteq> 0 | PosInf \<Rightarrow> True | NegInf \<Rightarrow> True | NaN \<Rightarrow> True)"

definition py_int :: "pyfloat \<Rightarrow> error + int" where
  "py_int x =
     (case x of
        Finite v \<Rightarrow> Inr (if v < 0 then \<lceil>v\<rceil> else \<lfloor>v\<rfloor>)
      | PosInf \<Rightarrow> Inl OverflowError
      | NegInf \<Rightarrow> Inl OverflowError
      | NaN \<Rightarrow> Inl ValueError)"

definition accuracy :: "tracker \<Rightarrow> error + int" where
  "accuracy self =
     (case last_report self of
        None \<Rightarrow> Inl MissingDataError
      | Some r \<Rightarrow> py_int (if float_truthy (he_accuracy r) then he_accuracy r else Finite 10000))"

definition address :: "tracker \<Rightarrow> error + string" where
  "address self =
     (case last_report self of None \<Rightarrow> Inl MissingDataError | Some r \<Rightarrow> Inr (he_address r))"

definition alert_type :: "tracker \<Rightarrow> error + alert_kind" where
  "alert_type self =
     (case last_report self of None \<Rightarrow> Inl MissingDataError | Some r \<Rightarrow> Inr (he_alert_type r))"

definition last_report_time :: "tracker \<Rightarrow> error + int" where
  "last_report_time self =
     (case last_report self of None \<Rightarrow> Inl MissingDataError | Some r \<Rightarrow> Inr (he_time_created r))"

definition modem_temperature :: "tracker \<Rightarrow> error + int option" where
  "modem_temperature self =
     (case last_report self of
        None \<Rightarrow> Inl MissingDataError
      | Some r \<Rightarrow> Inr (he_modem_temperature r))"

text \<open>
  \<open>update_location\<close>: a stored entry with the same \<open>time_created\<close> makes the call return
  False. Otherwise the entry is stored, the debug line reads \<open>latitude\<close> and \<open>longitude\<close>
  of the tracker (a raise there would leave the method after the store), and the call
  returns True.
\<close>

definition update_location :: "history_entry \<Rightarrow> tracker \<Rightarrow> (error + bool) \<times> tracker" where
  "update_location history_entry self =
     (if (case last_report self of
            None \<Rightarrow> False
          | Some r \<Rightarrow> he_time_created r = he_time_created history_entry)
      then (Inr False, self)
      else
        (let self' = self\<lparr>last_report := Some history_entry\<rparr> in
         case latitude self' of
           Inl e \<Rightarrow> (Inl e, self')
         | Inr _ \<Rightarrow>
             (case longitude self' of
                Inl e \<Rightarrow> (Inl e, self')
              | Inr _ \<Rightarrow> (Inr True, self'))))"

text \<open>
  The life of one Tracker: it is constructed from a descriptor and then only the two
  mutators act on it.
\<close>

datatype tracker_call = UpdateDevice found_device | UpdateLocation history_entry

fun tracker_calls :: "tracker_call list \<Rightarrow> tracker \<Rightarrow> tracker" where
  "tracker_calls [] self = self"
| "tracker_calls (UpdateDevice d # cs) self = tracker_calls cs (snd (update_device d self))"
| "tracker_calls (UpdateLocation h # cs) self = tracker_calls cs (snd (update_location h self))"

definition is_location_call :: "tracker_call \<Rightarrow> bool" where
  "is_location_call c = (case c of UpdateLocation _ \<Rightarrow> True | UpdateDevice _ \<Rightarrow> False)"

section \<open>The API client (airbolt\_api/client.py)\<close>

text \<open>
  Of \<open>LoginResult\<close> the fields that the client and the hub read are kept. The history
  page is the schema's envelope.
\<close>

record login_result =
  lr_id :: string
  lr_username :: string
  lr_name :: string
  lr_auth_header :: string

record pagination =
  pg_total :: int
  pg_total_pages :: int
  pg_next :: int
  pg_has_next :: bool
  pg_prev :: int
  pg_has_prev :: bool
  pg_per_page :: int
  pg_current :: int

record device_history_page =
  page_success :: bool
  page_data :: "history_entry list"
  page_pagination :: pagination

text \<open>
  The text of a response stands for what it decodes to: a body that is valid for one of
  the three schemas the client parses is the decoded record, any other text is
  \<open>OtherText\<close>. Parsing such a body against a schema it is not valid for raises pydantic's
  \<open>ValidationError\<close>.
\<close>

datatype payload =
    LoginJson login_result
  | DevicesJson "found_device list"
  | HistoryJson device_history_page
  | OtherText string

definition parse_LoginResult :: "payload \<Rightarrow> error + login_result" where
  "parse_LoginResult raw = (case raw of LoginJson r \<Rightarrow> Inr r | _ \<Rightarrow> Inl ValidationError)"

definition parse_FoundDevice_list :: "payload \<Rightarrow> error + found_device list" where
  "parse_FoundDevice_list raw = (case raw of DevicesJson ds \<Rightarrow> Inr ds | _ \<Rightarrow> Inl ValidationError)"

definition parse_DeviceHistoryPage :: "payload \<Rightarrow> error + device_history_page" where
  "parse_DeviceHistoryPage raw =
     (case raw of HistoryJson p \<Rightarrow> Inr p | _ \<Rightarrow> Inl ValidationError)"

text \<open>
  The remote side is the stream of its answers, one per request in the order the requests
  are made: a status with a body, or no response at all. The client object holds the
  session's \<open>Authorization\<close> header, the credentials and the login result (unset before the
  first login, where reading them raises \<open>AttributeError\<close>), and, to make its effects
  visible, the requests it has sent and the sleeps it has taken, oldest first.
\<close>

datatype reply = Response nat payload | NoResponse

datatype event =
    HttpGet string
  | HttpPost string "(string \<times> string) list"
  | Sleep nat

record client =
  authorization :: string
  username :: "string option"
  password :: "string option"
  login_result :: "login_result option"
  replies :: "reply stream"
  events :: "event list"

definition AirboltClient :: "reply stream \<Rightarrow> client" where
  "AirboltClient server =
     \<lparr>authorization = [], username = None, password = None, login_result = None,
      replies = server, events = []\<rparr>"

definition BASE_URL :: string where
  "BASE_URL = ''https://airboltapiconnect.com/api/''"

text \<open>
  \<open>urljoin\<close> of a base that ends in a slash and a relative path without dot segments
  appends the path.
\<close>

definition urljoin :: "string \<Rightarrow> string \<Rightarrow> string" where
  "urljoin base path = base @ path"

definition session_get :: "string \<Rightarrow> client \<Rightarrow> reply \<times> client" where
  "session_get url self =
     (shd (replies self),
      self\<lparr>replies := stl (replies self), events := events self @ [HttpGet url]\<rparr>)"

definition session_post :: "string \<Rightarrow> (string \<times> string) list \<Rightarrow> client \<Rightarrow> reply \<times> client" where
  "session_post url body self =
     (shd (replies self),
      self\<lparr>replies := stl (replies self), events := events self @ [HttpPost url body]\<rparr>)"

definition sleep :: "nat \<Rightarrow> client \<Rightarrow> client" where
  "sleep seconds self = self\<lparr>events := events self @ [Sleep seconds]\<rparr>"

text \<open>
  \<open>raise_for_status\<close> raises for a status of 400 and above and returns for any other.
  After the loop the helpers call it on the last response and then \<open>return ""\<close>.
\<close>

definition raise_for_status :: "nat \<Rightarrow> error option" where
  "raise_for_status status = (if 400 \<le> status then Some (ClientResponseError status) else None)"

definition after_loop ::
  "(nat \<times> payload) option \<Rightarrow> client \<Rightarrow> ((error + payload) \<times> client) option" where
  "after_loop response self =
     (case response of
        None \<Rightarrow> Some (Inl (UnboundLocalError ''response''), self)
      | Some (status, _) \<Rightarrow>
          (case raise_for_status status of
             Some e \<Rightarrow> Some (Inl e, self)
           | None \<Rightarrow> Some (Inr (OtherText []), self)))"

text \<open>
  \<open>_post\<close> and \<open>_reauthenticate\<close> call each other: a 401 makes \<open>_post\<close> sleep and
  re-authenticate, and re-authenticating posts the credentials to \<open>login\<close>. Nothing in the
  code bounds that recursion, so the model takes fuel, spent at each \<open>_reauthenticate\<close>,
  and \<open>None\<close> is a call that has not returned within it.

  The \<open>while retry\<close> loop is \<open>post_loop\<close>, with the loop's variables \<open>retry\<close> and
  \<open>response\<close> as arguments. The body clears \<open>retry\<close> before it looks for a 401, and
  \<open>continue\<close> goes to the loop's test like the end of the body does.
\<close>

function post_loop ::
    "nat \<Rightarrow> bool \<Rightarrow> (nat \<times> payload) option \<Rightarrow> string \<Rightarrow> (string \<times> string) list \<Rightarrow> client
      \<Rightarrow> ((error + payload) \<times> client) option"
  and reauthenticate :: "nat \<Rightarrow> client \<Rightarrow> ((error + login_result) \<times> client) option"
where
  "post_loop fuel retry response path body self =
     (if retry then
        (case session_post (urljoin BASE_URL path) body self of
           (NoResponse, self1) \<Rightarrow> Some (Inl ClientConnectionError, self1)
         | (Response status text, self1) \<Rightarrow>
             if status = 200 then Some (Inr text, self1)
             else if status = 401 then
               (case reauthenticate fuel (sleep 500 self1) of
                  None \<Rightarrow> None
                | Some (Inl e, self2) \<Rightarrow> Some (Inl e, self2)
                | Some (Inr _, self2) \<Rightarrow>
                    post_loop fuel False (Some (status, text)) path body self2)
             else post_loop fuel False (Some (status, text)) path body self1)
      else after_loop response self)"
| "reauthenticate 0 self = None"
| "reauthenticate (Suc fuel) self =
     (case username self of
        None \<Rightarrow> Some (Inl (AttributeError ''_username''), self)
      | Some u \<Rightarrow>
          (case password self of
             None \<Rightarrow> Some (Inl (AttributeError ''_password''), self)
           | Some p \<Rightarrow>
               (case post_loop fuel True None ''login''
                       [(''username'', u), (''password'', p), (''twoFactorCode'', [])] self of
                  None \<Rightarrow> None
                | Some (Inl e, self1) \<Rightarrow> Some (Inl e, self1)
                | Some (Inr raw_response, self1) \<Rightarrow>
                    (case parse_LoginResult raw_response of
                       Inl e \<Rightarrow> Some (Inl e, self1)
                     | Inr r \<Rightarrow>
                         Some (Inr r, self1\<lparr>login_result := Some r,
                                            authorization := lr_auth_header r\<rparr>)))))"
  by pat_completeness auto
termination
  by (relation "measure (\<lambda>x. case x of
          Inl (fuel, retry, _) \<Rightarrow> 3 * fuel + (if retry then 2 else 1)
        | Inr (fuel, _) \<Rightarrow> 3 * fuel)") auto

definition post ::
  "nat \<Rightarrow> string \<Rightarrow> (string \<times> string) list \<Rightarrow> client \<Rightarrow> ((error + payload) \<times> client) option" where
  "post fuel path body self = post_loop fuel True None path body self"

text \<open>\<open>_get\<close> has the same loop around \<open>session.get\<close>.\<close>

function get_loop ::
  "nat \<Rightarrow> bool \<Rightarrow> (nat \<times> payload) option \<Rightarrow> string \<Rightarrow> client
    \<Rightarrow> ((error + payload) \<times> client) option"
where
  "get_loop fuel retry response path self =
     (if retry then
        (case session_get (urljoin BASE_URL path) self of
           (NoResponse, self1) \<Rightarrow> Some (Inl ClientConnectionError, self1)
         | (Response status text, self1) \<Rightarrow>
             if status = 200 then Some (Inr text, self1)
             else if status = 401 then
               (case reauthenticate fuel (sleep 500 self1) of
                  None \<Rightarrow> None
                | Some (Inl e, self2) \<Rightarrow> Some (Inl e, self2)
                | Some (Inr _, self2) \<Rightarrow> get_loop fuel False (Some (status, text)) path self2)
             else get_loop fuel False (Some (status, text)) path self1)
      else after_loop response self)"
  by pat_completeness auto
termination
  by (relation "measure (\<lambda>(fuel, retry, _). if retry then 1 else 0)") auto

definition get :: "nat \<Rightarrow> string \<Rightarrow> client \<Rightarrow> ((error + payload) \<times> client) option" where
  "get fuel path self = get_loop fuel True None path self"

definition login ::
  "nat \<Rightarrow> string \<Rightarrow> string \<Rightarrow> client \<Rightarrow> ((error + login_result) \<times> client) option" where
  "login fuel u p self = reauthenticate fuel (self\<lparr>username := Some u, password := Some p\<rparr>)"

text \<open>An f-string writes an \<open>int\<close> in decimal.\<close>

function str_nat :: "nat \<Rightarrow> string" where
  "str_nat n =
     (if n < 10 then [''0123456789'' ! n]
      else str_nat (n div 10) @ [''0123456789'' ! (n mod 10)])"
  by pat_completeness auto
termination
  by (relation "measure (\<lambda>n. n)") auto

definition str_int :: "int \<Rightarrow> string" where
  "str_int i = (if i < 0 then CHR ''-'' # str_nat (nat (- i)) else str_nat (nat i))"

definition find_devices ::
  "nat \<Rightarrow> client \<Rightarrow> ((error + found_device list) \<times> client) option" where
  "find_devices fuel self =
     (case login_result self of
        None \<Rightarrow> Some (Inl (AttributeError ''_login_result''), self)
      | Some r \<Rightarrow>
          (case get fuel (''devices/find/'' @ lr_id r @ ''?page=0&perPage=999'') self of
             None \<Rightarrow> None
           | Some (Inl e, self1) \<Rightarrow> Some (Inl e, self1)
           | Some (Inr raw_data, self1) \<Rightarrow>
               (case parse_FoundDevice_list raw_data of
                  Inl e \<Rightarrow> Some (Inl e, self1)
                | Inr ds \<Rightarrow> Some (Inr ds, self1))))"

definition get_device_history_page ::
  "nat \<Rightarrow> string \<Rightarrow> int \<Rightarrow> int \<Rightarrow> client
    \<Rightarrow> ((error + device_history_page) \<times> client) option" where
  "get_device_history_page fuel device_uuid page page_size self =
     (case get fuel (''history/find/device/'' @ device_uuid @ ''?page='' @ str_int page
                      @ ''&perPage='' @ str_int page_size) self of
        None \<Rightarrow> None
      | Some (Inl e, self1) \<Rightarrow> Some (Inl e, self1)
      | Some (Inr raw_data, self1) \<Rightarrow>
          (case parse_DeviceHistoryPage raw_data of
             Inl e \<Rightarrow> Some (Inl e, self1)
           | Inr p \<Rightarrow> Some (Inr p, self1)))"

section \<open>Hub and coordinator (hub.py)\<close>

text \<open>
  The hub owns the client, the logged-in user (unset before the first login) and the
  registry \<open>_devices\<close>, a dict from device id to Tracker. The dict is an attribute of
  the class, so \<open>Hub\<close> below is the first hub of a process, whose registry is still
  empty; the properties are stated for any registry.
\<close>

record hub =
  hub_client :: client
  hub_user :: "login_result option"
  devices :: "string \<rightharpoonup> tracker"

definition Hub :: "reply stream \<Rightarrow> hub" where
  "Hub server = \<lparr>hub_client = AirboltClient server, hub_user = None, devices = Map.empty\<rparr>"

text \<open>
  \<open>Hub._login\<close> turns an \<open>HTTPClientError\<close> (of \<open>aiohttp.web\<close>) into
  \<open>InvalidCredentials\<close> and lets every other exception pass. Which exceptions of the
  client are instances of that class is not decided by this repository, so the handler's
  test is the parameter \<open>is_HTTPClientError\<close>.
\<close>

definition Hub_login ::
  "(error \<Rightarrow> bool) \<Rightarrow> nat \<Rightarrow> string \<Rightarrow> string \<Rightarrow> hub \<Rightarrow> ((error + unit) \<times> hub) option" where
  "Hub_login is_HTTPClientError fuel u p self =
     (case login fuel u p (hub_client self) of
        None \<Rightarrow> None
      | Some (Inr user, c) \<Rightarrow> Some (Inr (), self\<lparr>hub_client := c, hub_user := Some user\<rparr>)
      | Some (Inl client_error, c) \<Rightarrow>
          Some (Inl (if is_HTTPClientError client_error then InvalidCredentials client_error
                     else client_error),
                self\<lparr>hub_client := c\<rparr>))"



text \<open>
  The coordinator's result is a \<open>defaultdict(dict)\<close>: storing a flag for a device id
  that has no entry yet creates the entry.
\<close>

type_synonym coordinator_data = "string \<rightharpoonup> (string \<rightharpoonup> bool)"

definition set_flag :: "string \<Rightarrow> string \<Rightarrow> bool \<Rightarrow> coordinator_data \<Rightarrow> coordinator_data" where
  "set_flag tracker_id key b coordinator_data =
     coordinator_data(tracker_id \<mapsto>
       (case coordinator_data tracker_id of None \<Rightarrow> Map.empty | Some flags \<Rightarrow> flags)(key \<mapsto> b))"

text \<open>The discovery loop of \<open>_async_update_data\<close> over the devices that were found.\<close>

fun discover ::
  "found_device list \<Rightarrow> (string \<rightharpoonup> tracker) \<Rightarrow> coordinator_data
    \<Rightarrow> (string \<rightharpoonup> tracker) \<times> coordinator_data" where
  "discover [] devs coordinator_data = (devs, coordinator_data)"
| "discover (discovered_device # rest) devs coordinator_data =
     (let tracker_id = fd_device_uuid discovered_device in
      case devs tracker_id of
        Some known \<Rightarrow>
          (case update_device discovered_device known of
             (changed, known') \<Rightarrow>
               discover rest (devs(tracker_id \<mapsto> known'))
                 (set_flag tracker_id ''device'' changed coordinator_data))
      | None \<Rightarrow>
          discover rest (devs(tracker_id \<mapsto> Tracker discovered_device)) coordinator_data)"

text \<open>
  The loop over the listening ids, in the order the set yields them. A missing id raises
  \<open>KeyError\<close>. On a successful page the code evaluates \<open>tracker.update(page.data[0])\<close>;
  class \<open>Tracker\<close> has no attribute \<open>update\<close>, so reading it raises \<open>AttributeError\<close>
  before the argument or the assignment is evaluated.
\<close>

fun update_listening ::
  "nat \<Rightarrow> string list \<Rightarrow> hub \<Rightarrow> coordinator_data \<Rightarrow> ((error + coordinator_data) \<times> hub) option" where
  "update_listening fuel [] self coordinator_data = Some (Inr coordinator_data, self)"
| "update_listening fuel (tracker_id # rest) self coordinator_data =
     (case devices self tracker_id of
        None \<Rightarrow> Some (Inl (KeyError tracker_id), self)
      | Some tracker \<Rightarrow>
          (case get_device_history_page fuel (tr_id tracker) 1 1 (hub_client self) of
             None \<Rightarrow> None
           | Some (Inl e, c) \<Rightarrow> Some (Inl e, self\<lparr>hub_client := c\<rparr>)
           | Some (Inr page, c) \<Rightarrow>
               if page_success page
               then Some (Inl (AttributeError ''update''), self\<lparr>hub_client := c\<rparr>)
               else update_listening fuel rest (self\<lparr>hub_client := c\<rparr>) coordinator_data))"

text \<open>
  The body of the \<open>try\<close> block, and \<open>_async_update_data\<close>, which re-raises every
  exception of the body as \<open>UpdateFailed\<close>. What the body has written to the hub by then
  stays written. The 10 second limit of \<open>async_timeout\<close> is wall-clock time and is not
  part of the model.
\<close>

definition update_body ::
  "nat \<Rightarrow> string list \<Rightarrow> hub \<Rightarrow> ((error + coordinator_data) \<times> hub) option" where
  "update_body fuel listening_tracker_ids self =
     (case find_devices fuel (hub_client self) of
        None \<Rightarrow> None
      | Some (Inl e, c) \<Rightarrow> Some (Inl e, self\<lparr>hub_client := c\<rparr>)
      | Some (Inr found, c) \<Rightarrow>
          (case discover found (devices self) Map.empty of
             (devs, coordinator_data) \<Rightarrow>
               update_listening fuel listening_tracker_ids
                 (self\<lparr>hub_client := c, devices := devs\<rparr>) coordinator_data))"

definition async_update_data ::
  "nat \<Rightarrow> string list \<Rightarrow> hub \<Rightarrow> ((error + coordinator_data) \<times> hub) option" where
  "async_update_data fuel listening_tracker_ids self =
     (case update_body fuel listening_tracker_ids self of
        None \<Rightarrow> None
      | Some (Inl exc, self1) \<Rightarrow> Some (Inl (UpdateFailed exc), self1)
      | Some (Inr coordinator_data, self1) \<Rightarrow> Some (Inr coordinator_data, self1))"





text \<open>
  The number of GET requests that a client has sent so far, read off its record of
  events.
\<close>

definition is_get :: "event \<Rightarrow> bool" where
  "is_get ev = (case ev of HttpGet _ \<Rightarrow> True | _ \<Rightarrow> False)"

definition http_gets :: "client \<Rightarrow> nat" where
  "http_gets self = length (filter is_get (events self))"

section \<open>Sample data\<close>

text \<open>Sample data, after the payloads quoted in classes.py.\<close>

definition sample_device :: found_device where
  "sample_device =
     \<lparr>fd_id = ''646811'', fd_device_uuid = ''fca00cf27698'', fd_name = ''Keys'',
      fd_device_type = ''shield_gps''\<rparr>"

definition sample_entry :: history_entry where
  "sample_entry =
     \<lparr>he_id = ''646cf0bc'', he_device_uuid = ''fca00cf27698'',
      he_modem_voltage = Some 3926, he_modem_temperature = Some 25, he_type = mcell,
      he_time_created = 1684861091, he_latitude = Finite (388321749 / 10000000),
      he_longitude = Finite (- (772072074 / 10000000)),
      he_accuracy = Finite (807957 / 1000),
      he_location_changed = True, he_duration = 0, he_alert_type = Motion,
      he_address = ''Little River Turnpike'', he_last_seen_on = 1684861091\<rparr>"


definition sample_login :: login_result where
  "sample_login = \<lparr>lr_id = ''646805c7'', lr_username = ''ada'', lr_name = ''Ada'',
                    lr_auth_header = ''Bearer k1''\<rparr>"

definition sample_page :: device_history_page where
  "sample_page =
     \<lparr>page_success = True, page_data = [sample_entry],
      page_pagination = \<lparr>pg_total = 1, pg_total_pages = 1, pg_next = 1, pg_has_next = False,
        pg_prev = 1, pg_has_prev = False, pg_per_page = 1, pg_current = 1\<rparr>\<rparr>"

definition logged_in :: "reply stream \<Rightarrow> client" where
  "logged_in server =
     (AirboltClient server)\<lparr>username := Some ''ada'', password := Some ''pw'',
        login_result := Some sample_login, authorization := ''Bearer k1''\<rparr>"

definition sample_hub :: "reply stream \<Rightarrow> hub" where
  "sample_hub server =
     \<lparr>hub_client = logged_in server, hub_user = Some sample_login,
      devices = [''fca00cf27698'' \<mapsto> Tracker sample_device]\<rparr>"

section \<open>Properties of the Tracker\<close>

lemma py_int_not_missing: "py_int x \<noteq> Inl MissingDataError"
  by (simp add: py_int_def split: pyfloat.splits)

lemma update_location_stores:
  "last_report (snd (update_location h t)) \<noteq> None"
  by (simp add: update_location_def latitude_def longitude_def Let_def split: option.splits)

lemma update_device_last_report:
  "last_report (snd (update_device d t)) = last_report t"
  by (simp add: update_device_def)

lemma Tracker_last_report: "last_report (Tracker d) = None"
  by (simp add: Tracker_def update_device_def)

lemma tracker_calls_keeps_report:
  "last_report t \<noteq> None \<Longrightarrow> last_report (tracker_calls cs t) \<noteq> None"
proof (induction cs arbitrary: t)
  case Nil
  then show ?case by simp
next
  case (Cons c cs)
  show ?case
  proof (cases c)
    case (UpdateDevice d)
    from Cons.prems have "last_report (snd (update_device d t)) \<noteq> None"
      by (simp add: update_device_last_report)
    then have "last_report (tracker_calls cs (snd (update_device d t))) \<noteq> None"
      by (rule Cons.IH)
    with UpdateDevice show ?thesis by simp
  next
    case (UpdateLocation h)
    have "last_report (tracker_calls cs (snd (update_location h t))) \<noteq> None"
      by (rule Cons.IH) (rule update_location_stores)
    with UpdateLocation show ?thesis by simp
  qed
qed

lemma tracker_calls_no_location:
  "\<forall>c \<in> set cs. \<not> is_location_call c \<Longrightarrow> last_report (tracker_calls cs t) = last_report t"
proof (induction cs arbitrary: t)
  case Nil
  then show ?case by simp
next
  case (Cons c cs)
  then show ?case
    by (cases c) (simp_all add: update_device_last_report is_location_call_def)
qed

lemma tracker_calls_some_location:
  "\<exists>c \<in> set cs. is_location_call c \<Longrightarrow> last_report (tracker_calls cs t) \<noteq> None"
proof (induction cs arbitrary: t)
  case Nil
  then show ?case by simp
next
  case (Cons c cs)
  show ?case
  proof (cases c)
    case (UpdateDevice d)
    with Cons show ?thesis by (simp add: is_location_call_def)
  next
    case (UpdateLocation h)
    then show ?thesis
      by (simp add: tracker_calls_keeps_report update_location_stores)
  qed
qed

text \<open>
  Claim C4. \<open>update_location\<close> returns False exactly when an entry is stored whose
  timestamp equals the new entry's, and then the tracker is unchanged; in every other
  case, the first call included, it returns True and the stored entry is the new entry
  itself, whatever was stored before; a second call with an entry of the same timestamp
  returns False and changes nothing.
\<close>

theorem update_location_timestamp_only:
  "(fst (update_location h t) = Inr False
      \<longleftrightarrow> (\<exists>r. last_report t = Some r \<and> he_time_created r = he_time_created h))
   \<and> (fst (update_location h t) = Inr False \<longrightarrow> snd (update_location h t) = t)
   \<and> (fst (update_location h t) \<noteq> Inr False \<longrightarrow>
        update_location h t = (Inr True, t\<lparr>last_report := Some h\<rparr>))
   \<and> (he_time_created h' = he_time_created h \<longrightarrow>
        update_location h' (snd (update_location h t))
          = (Inr False, snd (update_location h t)))"
  by (auto simp add: update_location_def latitude_def longitude_def Let_def
      split: option.splits)

theorem update_location_timestamp_only_witness:
  "update_location sample_entry (Tracker sample_device)
     = (Inr True, (Tracker sample_device)\<lparr>last_report := Some sample_entry\<rparr>)
   \<and> update_location (sample_entry\<lparr>he_latitude := Finite 11\<rparr>)
        (snd (update_location sample_entry (Tracker sample_device)))
     = (Inr False, snd (update_location sample_entry (Tracker sample_device)))"
  using update_location_timestamp_only
    [of sample_entry "Tracker sample_device" "sample_entry\<lparr>he_latitude := Finite 11\<rparr>"]
  by (simp add: Tracker_last_report)

text \<open>
  Claim C5. After \<open>update_device\<close> returns, the stored name and model are the
  descriptor's name and device type, whatever the comparison said, and the returned
  boolean is True exactly when the name or the model differed from the stored values.
\<close>

theorem update_device_result:
  "update_device d t = (b, t') \<Longrightarrow>
     tr_name t' = fd_name d \<and> tr_model t' = fd_device_type d
     \<and> (b \<longleftrightarrow> (tr_name t \<noteq> fd_name d \<or> tr_model t \<noteq> fd_device_type d))"
  by (auto simp add: update_device_def split: if_splits)

theorem update_device_result_witness:
  "tr_name (snd (update_device sample_device (Tracker (sample_device\<lparr>fd_name := ''Bag''\<rparr>))))
     = ''Keys''
   \<and> fst (update_device sample_device (Tracker (sample_device\<lparr>fd_name := ''Bag''\<rparr>)))
   \<and> \<not> fst (update_device sample_device (Tracker sample_device))"
  using update_device_result
    [of sample_device "Tracker (sample_device\<lparr>fd_name := ''Bag''\<rparr>)"
        "fst (update_device sample_device (Tracker (sample_device\<lparr>fd_name := ''Bag''\<rparr>)))"
        "snd (update_device sample_device (Tracker (sample_device\<lparr>fd_name := ''Bag''\<rparr>)))"]
    update_device_result
    [of sample_device "Tracker sample_device"
        "fst (update_device sample_device (Tracker sample_device))"
        "snd (update_device sample_device (Tracker sample_device))"]
  by (simp add: Tracker_def update_device_def sample_device_def)

text \<open>
  Claim C6. On a Tracker that was constructed and then only saw calls other than
  \<open>update_location\<close>, each of the seven location-derived accessors raises
  \<open>MissingDataError\<close>; as soon as the calls contain one \<open>update_location\<close>, none of
  them raises it.
\<close>

theorem accessors_missing_data:
  "t = tracker_calls cs (Tracker d) \<Longrightarrow>
     (if \<exists>c \<in> set cs. is_location_call c
      then latitude t \<noteq> Inl MissingDataError \<and> longitude t \<noteq> Inl MissingDataError
         \<and> accuracy t \<noteq> Inl MissingDataError \<and> address t \<noteq> Inl MissingDataError
         \<and> alert_type t \<noteq> Inl MissingDataError \<and> last_report_time t \<noteq> Inl MissingDataError
         \<and> modem_temperature t \<noteq> Inl MissingDataError
      else latitude t = Inl MissingDataError \<and> longitude t = Inl MissingDataError
         \<and> accuracy t = Inl MissingDataError \<and> address t = Inl MissingDataError
         \<and> alert_type t = Inl MissingDataError \<and> last_report_time t = Inl MissingDataError
         \<and> modem_temperature t = Inl MissingDataError)"
proof (cases "\<exists>c \<in> set cs. is_location_call c")
  case True
  assume t: "t = tracker_calls cs (Tracker d)"
  from True have "last_report (tracker_calls cs (Tracker d)) \<noteq> None"
    by (rule tracker_calls_some_location)
  with t obtain r where "last_report t = Some r" by auto
  with True show ?thesis
    by (simp add: latitude_def longitude_def accuracy_def address_def alert_type_def
        last_report_time_def modem_temperature_def py_int_not_missing)
next
  case False
  assume t: "t = tracker_calls cs (Tracker d)"
  from False have "last_report (tracker_calls cs (Tracker d)) = last_report (Tracker d)"
    by (intro tracker_calls_no_location) simp
  with t have "last_report t = None" by (simp add: Tracker_last_report)
  with False show ?thesis
    by (simp add: latitude_def longitude_def accuracy_def address_def alert_type_def
        last_report_time_def modem_temperature_def)
qed

theorem accessors_missing_data_witness:
  "latitude (tracker_calls [UpdateDevice sample_device] (Tracker sample_device))
     = Inl MissingDataError
   \<and> latitude (tracker_calls [UpdateDevice sample_device, UpdateLocation sample_entry]
        (Tracker sample_device)) \<noteq> Inl MissingDataError"
  using accessors_missing_data
    [of "tracker_calls [UpdateDevice sample_device] (Tracker sample_device)"
        "[UpdateDevice sample_device]" sample_device]
    accessors_missing_data
    [of "tracker_calls [UpdateDevice sample_device, UpdateLocation sample_entry]
           (Tracker sample_device)"
        "[UpdateDevice sample_device, UpdateLocation sample_entry]" sample_device]
  by (simp add: is_location_call_def)

text \<open>
  Claim C7, as stated, fails: a stored accuracy of infinity is truthy, and the accessor
  raises \<open>OverflowError\<close> on it instead of returning an integer.
\<close>

theorem accuracy_infinite_counterexample:
  "last_report (snd (update_location (sample_entry\<lparr>he_accuracy := PosInf\<rparr>)
       (Tracker sample_device))) = Some (sample_entry\<lparr>he_accuracy := PosInf\<rparr>)
   \<and> accuracy (snd (update_location (sample_entry\<lparr>he_accuracy := PosInf\<rparr>)
       (Tracker sample_device))) = Inl OverflowError"
  by (simp add: update_location_def Tracker_last_report latitude_def longitude_def
      accuracy_def py_int_def float_truthy_def)

text \<open>
  Claim C7, amended. With a recorded location, the accuracy accessor returns 10000 when
  the stored accuracy is zero, and the stored accuracy truncated towards zero when it is
  finite and not zero; on a stored infinity it raises \<open>OverflowError\<close> and on a stored
  NaN \<open>ValueError\<close>.
\<close>

theorem accuracy_default:
  "last_report t = Some r \<Longrightarrow>
     accuracy t =
       (case he_accuracy r of
          Finite v \<Rightarrow> Inr (if v = 0 then 10000 else if v < 0 then \<lceil>v\<rceil> else \<lfloor>v\<rfloor>)
        | PosInf \<Rightarrow> Inl OverflowError
        | NegInf \<Rightarrow> Inl OverflowError
        | NaN \<Rightarrow> Inl ValueError)"
  by (simp add: accuracy_def py_int_def float_truthy_def split: pyfloat.splits)

theorem accuracy_default_witness:
  "accuracy (snd (update_location sample_entry (Tracker sample_device))) = Inr 807
   \<and> accuracy (snd (update_location (sample_entry\<lparr>he_accuracy := Finite 0\<rparr>)
         (Tracker sample_device))) = Inr 10000
   \<and> accuracy (snd (update_location (sample_entry\<lparr>he_accuracy := NaN\<rparr>)
         (Tracker sample_device))) = Inl ValueError"
  using accuracy_default
    [of "snd (update_location sample_entry (Tracker sample_device))" sample_entry]
    accuracy_default
    [of "snd (update_location (sample_entry\<lparr>he_accuracy := Finite 0\<rparr>) (Tracker sample_device))"
        "sample_entry\<lparr>he_accuracy := Finite 0\<rparr>"]
    accuracy_default
    [of "snd (update_location (sample_entry\<lparr>he_accuracy := NaN\<rparr>) (Tracker sample_device))"
        "sample_entry\<lparr>he_accuracy := NaN\<rparr>"]
  by (simp add: update_location_def Tracker_last_report latitude_def longitude_def
      sample_entry_def)

text \<open>
  Claim C10. \<open>update_device\<close> leaves the stored report and the tracker id as they were;
  \<open>update_location\<close> leaves the name, the model and the tracker id as they were.
\<close>

theorem mutators_frame:
  "last_report (snd (update_device d t)) = last_report t
   \<and> tr_id (snd (update_device d t)) = tr_id t
   \<and> tr_name (snd (update_location h t)) = tr_name t
   \<and> tr_model (snd (update_location h t)) = tr_model t
   \<and> tr_id (snd (update_location h t)) = tr_id t"
  by (simp add: update_device_def update_location_def latitude_def longitude_def Let_def
      split: option.splits)

section \<open>Properties of the client\<close>

text \<open>
  The loops unfolded once: with \<open>retry\<close> cleared the loop is left at once, and an
  iteration that does not return clears it.
\<close>

lemma post_loop_exit:
  "post_loop fuel False response path body self = after_loop response self"
  by simp

lemma get_loop_exit:
  "get_loop fuel False response path self = after_loop response self"
  by simp

lemma post_loop_enter:
  "post_loop fuel True response path body self =
     (case session_post (urljoin BASE_URL path) body self of
        (NoResponse, self1) \<Rightarrow> Some (Inl ClientConnectionError, self1)
      | (Response status text, self1) \<Rightarrow>
          if status = 200 then Some (Inr text, self1)
          else if status = 401 then
            (case reauthenticate fuel (sleep 500 self1) of
               None \<Rightarrow> None
             | Some (Inl e, self2) \<Rightarrow> Some (Inl e, self2)
             | Some (Inr _, self2) \<Rightarrow> after_loop (Some (status, text)) self2)
          else after_loop (Some (status, text)) self1)"
  by (subst post_loop.simps) (simp split: prod.splits reply.splits option.splits sum.splits)

lemma get_loop_enter:
  "get_loop fuel True response path self =
     (case session_get (urljoin BASE_URL path) self of
        (NoResponse, self1) \<Rightarrow> Some (Inl ClientConnectionError, self1)
      | (Response status text, self1) \<Rightarrow>
          if status = 200 then Some (Inr text, self1)
          else if status = 401 then
            (case reauthenticate fuel (sleep 500 self1) of
               None \<Rightarrow> None
             | Some (Inl e, self2) \<Rightarrow> Some (Inl e, self2)
             | Some (Inr _, self2) \<Rightarrow> after_loop (Some (status, text)) self2)
          else after_loop (Some (status, text)) self1)"
  by (subst get_loop.simps) (simp split: prod.splits reply.splits option.splits sum.splits)

declare post_loop.simps [simp del] get_loop.simps [simp del]

lemmas client_eval =
  get_def post_def login_def get_loop_enter post_loop_enter after_loop_def raise_for_status_def
  session_get_def session_post_def sleep_def urljoin_def parse_LoginResult_def
  logged_in_def AirboltClient_def

text \<open>A server that answers every request with 401 keeps the login flow going for ever.\<close>

lemma reauthenticate_401_forever:
  "replies c = sconst (Response 401 text) \<Longrightarrow> username c = Some u \<Longrightarrow> password c = Some p
     \<Longrightarrow> reauthenticate fuel c = None"
proof (induction fuel arbitrary: c)
  case 0
  show ?case by simp
next
  case (Suc fuel)
  let ?c1 = "sleep 500 (snd (session_post (urljoin BASE_URL ''login'')
       [(''username'', u), (''password'', p), (''twoFactorCode'', [])] c))"
  have "reauthenticate fuel ?c1 = None"
    using Suc.prems by (intro Suc.IH) (simp_all add: sleep_def session_post_def)
  with Suc.prems show ?case
    by (simp add: post_loop_enter session_post_def)
qed

text \<open>
  Whatever the server answers, \<open>_post\<close> and \<open>_reauthenticate\<close> send no GET, and
  \<open>_get\<close> sends exactly one.
\<close>

lemma after_loop_state: "after_loop response c = Some (r, c') \<Longrightarrow> c' = c"
  by (auto simp add: after_loop_def split: option.splits prod.splits)

lemma post_loop_state:
  "post_loop fuel retry response path body c = Some (r, c') \<Longrightarrow>
     c' = c \<or> c' = snd (session_post (urljoin BASE_URL path) body c)
     \<or> (\<exists>rr. reauthenticate fuel
               (sleep 500 (snd (session_post (urljoin BASE_URL path) body c))) = Some (rr, c'))"
  by (cases retry)
    (auto simp add: post_loop_exit post_loop_enter
      split: prod.splits reply.splits if_splits option.splits sum.splits
      dest: after_loop_state)

lemma get_loop_state:
  "get_loop fuel retry response path c = Some (r, c') \<Longrightarrow>
     (\<not> retry \<and> c' = c) \<or> (retry \<and> c' = snd (session_get (urljoin BASE_URL path) c))
     \<or> (retry \<and> (\<exists>rr. reauthenticate fuel
               (sleep 500 (snd (session_get (urljoin BASE_URL path) c))) = Some (rr, c')))"
  by (cases retry)
    (auto simp add: get_loop_exit get_loop_enter
      split: prod.splits reply.splits if_splits option.splits sum.splits
      dest: after_loop_state)

lemma http_gets_post [simp]: "http_gets (snd (session_post url body c)) = http_gets c"
  by (simp add: http_gets_def session_post_def is_get_def)

lemma http_gets_get [simp]: "http_gets (snd (session_get url c)) = Suc (http_gets c)"
  by (simp add: http_gets_def session_get_def is_get_def)

lemma http_gets_sleep [simp]: "http_gets (sleep n c) = http_gets c"
  by (simp add: http_gets_def sleep_def is_get_def)

lemma reauthenticate_state:
  "reauthenticate (Suc fuel) c = Some (r, c') \<Longrightarrow>
     c' = c \<or> (\<exists>rr c1. post_loop fuel True None ''login''
            [(''username'', the (username c)), (''password'', the (password c)),
             (''twoFactorCode'', [])] c = Some (rr, c1)
          \<and> http_gets c' = http_gets c1)"
  by (auto simp add: http_gets_def split: option.splits sum.splits prod.splits)

lemma reauthenticate_gets:
  "reauthenticate fuel c = Some (r, c') \<Longrightarrow> http_gets c' = http_gets c"
proof (induction fuel arbitrary: c r c')
  case 0
  then show ?case by simp
next
  case (Suc fuel)
  from Suc.prems consider "c' = c"
    | rr c1 where "post_loop fuel True None ''login''
            [(''username'', the (username c)), (''password'', the (password c)),
             (''twoFactorCode'', [])] c = Some (rr, c1)" "http_gets c' = http_gets c1"
    using reauthenticate_state by blast
  then show ?case
  proof cases
    case 1
    then show ?thesis by simp
  next
    case 2
    from post_loop_state [OF 2(1)] have "http_gets c1 = http_gets c"
      using Suc.IH by auto
    with 2 show ?thesis by simp
  qed
qed

lemma get_loop_gets:
  "get_loop fuel True response path c = Some (r, c') \<Longrightarrow> http_gets c' = Suc (http_gets c)"
  using get_loop_state [of fuel True response path c r c'] reauthenticate_gets
  by auto

lemma get_gets: "get fuel path c = Some (r, c') \<Longrightarrow> http_gets c' = Suc (http_gets c)"
  unfolding get_def by (rule get_loop_gets)

lemma find_devices_gets:
  "find_devices fuel c = Some (r, c') \<Longrightarrow> http_gets c' \<le> Suc (http_gets c)"
  by (auto simp add: find_devices_def split: option.splits sum.splits prod.splits
      dest: get_gets)

lemma get_device_history_page_gets:
  "get_device_history_page fuel uuid page page_size c = Some (r, c')
     \<Longrightarrow> http_gets c' = Suc (http_gets c)"
  by (auto simp add: get_device_history_page_def split: option.splits sum.splits prod.splits
      dest: get_gets)

lemma update_listening_gets:
  "update_listening fuel ids h data = Some (r, h')
     \<Longrightarrow> http_gets (hub_client h') \<le> http_gets (hub_client h) + length ids"
proof (induction ids arbitrary: h)
  case Nil
  then show ?case by simp
next
  case (Cons tid ids)
  show ?case
  proof (cases "devices h tid")
    case None
    with Cons.prems show ?thesis by simp
  next
    case (Some tracker)
    show ?thesis
    proof (cases "get_device_history_page fuel (tr_id tracker) 1 1 (hub_client h)")
      case None
      with Some Cons.prems show ?thesis by simp
    next
      case fetched: (Some res)
      obtain pr c where res: "res = (pr, c)" by (cases res)
      from fetched res have c: "http_gets c = Suc (http_gets (hub_client h))"
        by (auto dest: get_device_history_page_gets)
      show ?thesis
      proof (cases pr)
        case (Inl e)
        with Some fetched res Cons.prems c show ?thesis by auto
      next
        case (Inr page)
        show ?thesis
        proof (cases "page_success page")
          case True
          with Inr Some fetched res Cons.prems c show ?thesis by auto
        next
          case False
          with Inr Some fetched res Cons.prems
          have "update_listening fuel ids (h\<lparr>hub_client := c\<rparr>) data = Some (r, h')"
            by simp
          from Cons.IH [OF this] c show ?thesis by simp
        qed
      qed
    qed
  qed
qed

lemma update_body_gets:
  "update_body fuel ids h = Some (r, h')
     \<Longrightarrow> http_gets (hub_client h') \<le> http_gets (hub_client h) + 1 + length ids"
  by (auto simp add: update_body_def split: option.splits sum.splits prod.splits
      dest!: find_devices_gets update_listening_gets)

text \<open>
  Claim C1 (the code departs from it). A logged-in client sends a GET, or a POST; the
  server answers 401, accepts the replayed login with 200, and would answer the retried
  request with 200. The helper sleeps 500 seconds, posts the login with the stored
  credentials, and then raises the 401 of the first response: the original request is sent
  once only, and the answer that the retry would have got is still unread.
\<close>

theorem get_post_401_not_retried:
  "get (Suc 0) ''users/me''
     (logged_in ([Response 401 (OtherText ''Unauthorized''),
                  Response 200 (LoginJson sample_login)]
                 @- sconst (Response 200 (OtherText ''me''))))
   = Some (Inl (ClientResponseError 401),
       (logged_in (sconst (Response 200 (OtherText ''me''))))
         \<lparr>events := [HttpGet (BASE_URL @ ''users/me''), Sleep 500,
                     HttpPost (BASE_URL @ ''login'')
                       [(''username'', ''ada''), (''password'', ''pw''), (''twoFactorCode'', [])]]\<rparr>)
   \<and> post (Suc 0) ''users/me'' [(''k'', ''v'')]
     (logged_in ([Response 401 (OtherText ''Unauthorized''),
                  Response 200 (LoginJson sample_login)]
                 @- sconst (Response 200 (OtherText ''me''))))
   = Some (Inl (ClientResponseError 401),
       (logged_in (sconst (Response 200 (OtherText ''me''))))
         \<lparr>events := [HttpPost (BASE_URL @ ''users/me'') [(''k'', ''v'')], Sleep 500,
                     HttpPost (BASE_URL @ ''login'')
                       [(''username'', ''ada''), (''password'', ''pw''), (''twoFactorCode'', [])]]\<rparr>)"
  by (simp add: client_eval sample_login_def)

text \<open>
  Claim C3 (the code departs from it). When the server answers the login with 401, the
  hub's login does not fail at once: \<open>_post\<close> sleeps 500 seconds and posts the login again.
  Against a server that answers 401 every time the login never returns, whatever the fuel;
  against one that answers 401 once and then accepts, the login is posted twice and the
  call still fails, with the 401 of the first response.
\<close>

theorem Hub_login_401_retries:
  "Hub_login is_HTTPClientError fuel ''ada'' ''wrong''
      (Hub (sconst (Response 401 (OtherText ''Unauthorized'')))) = None
   \<and> Hub_login is_HTTPClientError (Suc (Suc 0)) ''ada'' ''pw''
      (Hub ([Response 401 (OtherText ''Unauthorized'')]
            @- sconst (Response 200 (LoginJson sample_login))))
   = Some (Inl (if is_HTTPClientError (ClientResponseError 401)
                then InvalidCredentials (ClientResponseError 401)
                else ClientResponseError 401),
       (Hub (sconst (Response 200 (LoginJson sample_login))))
         \<lparr>hub_client :=
            (logged_in (sconst (Response 200 (LoginJson sample_login))))
              \<lparr>events :=
                 [HttpPost (BASE_URL @ ''login'')
                    [(''username'', ''ada''), (''password'', ''pw''), (''twoFactorCode'', [])],
                  Sleep 500,
                  HttpPost (BASE_URL @ ''login'')
                    [(''username'', ''ada''), (''password'', ''pw''), (''twoFactorCode'', [])]]\<rparr>\<rparr>)"
proof
  show "Hub_login is_HTTPClientError fuel ''ada'' ''wrong''
      (Hub (sconst (Response 401 (OtherText ''Unauthorized'')))) = None"
    by (simp add: Hub_login_def Hub_def login_def AirboltClient_def
        reauthenticate_401_forever [where u = "''ada''" and p = "''wrong''"])
qed (simp add: Hub_login_def Hub_def client_eval sample_login_def)

section \<open>Properties of the coordinator\<close>

lemma str_int_1: "str_int 1 = ''1''"
  by (simp add: str_int_def)

lemmas cycle_eval =
  async_update_data_def update_body_def find_devices_def get_device_history_page_def
  parse_FoundDevice_list_def parse_DeviceHistoryPage_def set_flag_def Let_def

lemma set_flag_same: "set_flag tid key b data tid \<noteq> None"
  by (simp add: set_flag_def)



lemma update_listening_keeps:
  "update_listening fuel ids h data = Some (r, h') \<Longrightarrow>
     devices h' = devices h \<and> (\<forall>data'. r = Inr data' \<longrightarrow> data' = data)"
proof (induction ids arbitrary: h)
  case Nil
  then show ?case by auto
next
  case (Cons tid ids)
  show ?case
  proof (cases "devices h tid")
    case None
    with Cons.prems show ?thesis by auto
  next
    case (Some tracker)
    show ?thesis
    proof (cases "get_device_history_page fuel (tr_id tracker) 1 1 (hub_client h)")
      case None
      with Some Cons.prems show ?thesis by simp
    next
      case fetched: (Some res)
      obtain pr c where res: "res = (pr, c)" by (cases res)
      show ?thesis
      proof (cases pr)
        case (Inl e)
        with Some fetched res Cons.prems show ?thesis by auto
      next
        case (Inr page)
        show ?thesis
        proof (cases "page_success page")
          case True
          with Inr Some fetched res Cons.prems show ?thesis by auto
        next
          case False
          with Inr Some fetched res Cons.prems
          have "update_listening fuel ids (h\<lparr>hub_client := c\<rparr>) data = Some (r, h')"
            by simp
          from Cons.IH [OF this] show ?thesis by simp
        qed
      qed
    qed
  qed
qed






text \<open>
  Claim C2 (the code departs from it). The hub knows one device and its entity listens.
  The cycle lists the devices, fetches the device's history with \<open>page=1\<close> and
  \<open>perPage=1\<close>, gets a page that reports success with one entry, and then fails with
  \<open>UpdateFailed\<close>: the code calls \<open>tracker.update\<close>, which class \<open>Tracker\<close> does not
  have, where \<open>update_location\<close> was meant. No mapping is published and the tracker
  keeps having no report.
\<close>

theorem async_update_data_location_fails:
  "async_update_data 0 [''fca00cf27698'']
     (sample_hub ([Response 200 (DevicesJson [sample_device]),
                   Response 200 (HistoryJson sample_page)] @- sconst NoResponse))
   = Some (Inl (UpdateFailed (AttributeError ''update'')),
       (sample_hub (sconst NoResponse))
         \<lparr>hub_client := (logged_in (sconst NoResponse))
            \<lparr>events :=
               [HttpGet (BASE_URL @ ''devices/find/646805c7?page=0&perPage=999''),
                HttpGet (BASE_URL @ ''history/find/device/fca00cf27698?page=1&perPage=1'')]\<rparr>\<rparr>)"
  by (simp add: cycle_eval client_eval sample_hub_def sample_login_def sample_page_def
      str_int_1 Tracker_def update_device_def sample_device_def)

text \<open>
  No cycle that returns publishes a \<open>location\<close> flag: the only keys of the published
  entries are \<open>device\<close>.
\<close>

lemma set_flag_keys:
  "\<forall>t fl. data t = Some fl \<longrightarrow> dom fl \<subseteq> {''device''} \<Longrightarrow>
     \<forall>t fl. set_flag tid ''device'' b data t = Some fl \<longrightarrow> dom fl \<subseteq> {''device''}"
  by (auto simp add: set_flag_def split: if_splits option.splits)

lemma discover_keys:
  "\<forall>t fl. data t = Some fl \<longrightarrow> dom fl \<subseteq> {''device''} \<Longrightarrow>
     \<forall>t fl. snd (discover ds devs data) t = Some fl \<longrightarrow> dom fl \<subseteq> {''device''}"
proof (induction ds arbitrary: devs data)
  case Nil
  then show ?case by simp
next
  case (Cons d ds)
  show ?case
  proof (cases "devs (fd_device_uuid d)")
    case None
    then have eq: "discover (d # ds) devs data
        = discover ds (devs(fd_device_uuid d \<mapsto> Tracker d)) data"
      by (simp add: Let_def)
    show ?thesis unfolding eq by (rule Cons.IH [OF Cons.prems])
  next
    case (Some known)
    obtain b known' where ud: "update_device d known = (b, known')"
      by (cases "update_device d known")
    with Some have eq: "discover (d # ds) devs data
        = discover ds (devs(fd_device_uuid d \<mapsto> known'))
            (set_flag (fd_device_uuid d) ''device'' b data)"
      by (simp add: Let_def)
    show ?thesis unfolding eq by (rule Cons.IH [OF set_flag_keys [OF Cons.prems]])
  qed
qed

lemma async_update_data_no_location:
  assumes "async_update_data fuel ids h = Some (Inr published, h')"
    and "published tid = Some flags"
  shows "flags ''location'' = None"
proof -
  from assms(1) obtain found c devs data where
    dd: "discover found (devices h) Map.empty = (devs, data)" and
    ul: "update_listening fuel ids (h\<lparr>hub_client := c, devices := devs\<rparr>) data
       = Some (Inr published, h')"
    by (auto simp add: async_update_data_def update_body_def
        split: option.splits sum.splits prod.splits)
  from update_listening_keeps [OF ul] have "published = data" by simp
  with dd have "published = snd (discover found (devices h) Map.empty)" by simp
  moreover have "\<forall>t fl. snd (discover found (devices h) Map.empty) t = Some fl
      \<longrightarrow> dom fl \<subseteq> {''device''}"
    by (rule discover_keys) simp
  ultimately have "dom flags \<subseteq> {''device''}" using assms(2) by blast
  then show ?thesis by auto
qed

text \<open>
  Claim C8. Whatever exception the body of a refresh cycle raises, the cycle raises
  \<open>UpdateFailed\<close> with that exception as its cause, and it raises nothing else; and
  the coordinator repeats no request: a cycle sends at most one GET for the discovery and
  one for each listening id.
\<close>

theorem update_failed_wraps:
  "(update_body fuel ids h = Some (Inl exc, h1)
      \<longrightarrow> async_update_data fuel ids h = Some (Inl (UpdateFailed exc), h1))
   \<and> (async_update_data fuel ids h = Some (Inl e, h')
      \<longrightarrow> (\<exists>cause. e = UpdateFailed cause \<and> update_body fuel ids h = Some (Inl cause, h')))
   \<and> (async_update_data fuel ids h = Some (r, h')
      \<longrightarrow> http_gets (hub_client h') \<le> http_gets (hub_client h) + 1 + length ids)"
proof (intro conjI impI)
  assume "update_body fuel ids h = Some (Inl exc, h1)"
  then show "async_update_data fuel ids h = Some (Inl (UpdateFailed exc), h1)"
    by (simp add: async_update_data_def)
next
  assume "async_update_data fuel ids h = Some (Inl e, h')"
  then show "\<exists>cause. e = UpdateFailed cause \<and> update_body fuel ids h = Some (Inl cause, h')"
    by (auto simp add: async_update_data_def split: option.splits sum.splits prod.splits)
next
  assume "async_update_data fuel ids h = Some (r, h')"
  then obtain r' where "update_body fuel ids h = Some (r', h')"
    by (auto simp add: async_update_data_def split: option.splits sum.splits prod.splits)
  then show "http_gets (hub_client h') \<le> http_gets (hub_client h) + 1 + length ids"
    by (rule update_body_gets)
qed

lemma sample_cycle_network_failure:
  "update_body 0 [''fca00cf27698'']
     (sample_hub ([Response 200 (DevicesJson [sample_device])] @- sconst NoResponse))
   = Some (Inl ClientConnectionError,
       (sample_hub (sconst NoResponse))
         \<lparr>hub_client := (logged_in (sconst NoResponse))
            \<lparr>events :=
               [HttpGet (BASE_URL @ ''devices/find/646805c7?page=0&perPage=999''),
                HttpGet (BASE_URL @ ''history/find/device/fca00cf27698?page=1&perPage=1'')]\<rparr>\<rparr>)"
  by (simp add: cycle_eval client_eval sample_hub_def sample_login_def sample_page_def
      str_int_1 Tracker_def update_device_def sample_device_def)

theorem update_failed_wraps_witness:
  "async_update_data 0 [''fca00cf27698'']
     (sample_hub ([Response 200 (DevicesJson [sample_device])] @- sconst NoResponse))
   = Some (Inl (UpdateFailed ClientConnectionError),
       (sample_hub (sconst NoResponse))
         \<lparr>hub_client := (logged_in (sconst NoResponse))
            \<lparr>events :=
               [HttpGet (BASE_URL @ ''devices/find/646805c7?page=0&perPage=999''),
                HttpGet (BASE_URL @ ''history/find/device/fca00cf27698?page=1&perPage=1'')]\<rparr>\<rparr>)
   \<and> http_gets ((logged_in (sconst NoResponse))
            \<lparr>events :=
               [HttpGet (BASE_URL @ ''devices/find/646805c7?page=0&perPage=999''),
                HttpGet (BASE_URL @ ''history/find/device/fca00cf27698?page=1&perPage=1'')]\<rparr>)
       \<le> http_gets (logged_in ([Response 200 (DevicesJson [sample_device])] @- sconst NoResponse))
            + 1 + length [''fca00cf27698'']"
proof -
  let ?h = "sample_hub ([Response 200 (DevicesJson [sample_device])] @- sconst NoResponse)"
  let ?h' = "(sample_hub (sconst NoResponse))
         \<lparr>hub_client := (logged_in (sconst NoResponse))
            \<lparr>events :=
               [HttpGet (BASE_URL @ ''devices/find/646805c7?page=0&perPage=999''),
                HttpGet (BASE_URL @ ''history/find/device/fca00cf27698?page=1&perPage=1'')]\<rparr>\<rparr>"
  note w = update_failed_wraps [of 0 "[''fca00cf27698'']" ?h ClientConnectionError ?h'
      "UpdateFailed ClientConnectionError" ?h' "Inl (UpdateFailed ClientConnectionError)"]
  from w sample_cycle_network_failure
  have run: "async_update_data 0 [''fca00cf27698''] ?h
      = Some (Inl (UpdateFailed ClientConnectionError), ?h')"
    by blast
  with w have "http_gets (hub_client ?h') \<le> http_gets (hub_client ?h) + 1 + length [''fca00cf27698'']"
    by blast
  with run show ?thesis by (simp add: sample_hub_def)
qed















end
